theory Spec2Isabelle
  imports Main
begin

section \<open>The Attester reconciler of controllers/attester\_controller.go\<close>

text \<open>
  The reconciler is a loop-free procedure over three pieces of state: the resource store
  and the secret store behind \<open>r.Client\<close>, and the in-memory registry \<open>r.Attesters\<close>.
  A pass is modelled as a function from the state before the pass to the outcome of
  the pass and the state after it. Every call to a collaborator is recorded, in order,
  in a trace, together with the error it returned; \<open>log.Error\<close> calls are recorded too
  (\<open>log.Info\<close> calls are not). A collaborator may fail for reasons the model does not
  see (a conflict, a timeout): each call site of the source has a fault slot, and a
  pass is run under an assignment of faults to call sites. No call site is in a loop,
  so each is reached at most once in a pass.
\<close>

subsection \<open>Data\<close>

datatype ConditionType = ConditionCompiled | ConditionSecret

datatype ConditionStatus = ConditionStatusTrue | ConditionStatusFalse | ConditionStatusUnknown

record Condition =
  Type :: ConditionType
  Status :: ConditionStatus

text \<open>
  The fields of \<open>rodev1alpha1.Attester\<close> the controller reads or writes:
  \<open>ObjectMeta.DeletionTimestamp\<close> (a pointer to a time: \<open>None\<close> is nil, and
  \<open>Some 0\<close> the zero time), \<open>ObjectMeta.Finalizers\<close>, \<open>Spec.Policy\<close>,
  \<open>Spec.PgpSecret\<close> and \<open>Status.Conditions\<close>.
\<close>

record Attester =
  DeletionTimestamp :: "int option"
  Finalizers :: "string list"
  Policy :: string
  PgpSecret :: string
  Conditions :: "Condition list"

record Request =
  Namespace :: string
  Name :: string

type_synonym NamespacedName = "string \<times> string"

definition NamespacedName :: "Request \<Rightarrow> NamespacedName" where
  "NamespacedName req = (Namespace req, Name req)"

text \<open>\<open>types.NamespacedName.String()\<close>: namespace, a slash, name.\<close>

definition String :: "NamespacedName \<Rightarrow> string" where
  "String n = fst n @ ''/'' @ snd n"

text \<open>An error value; \<open>errors.IsNotFound\<close> recognises \<open>NotFound\<close>.\<close>

datatype error = NotFound | Failure string

definition IsNotFound :: "error \<Rightarrow> bool" where
  "IsNotFound err = (err = NotFound)"

definition IgnoreNotFound :: "error \<Rightarrow> error option" where
  "IgnoreNotFound err = (if IsNotFound err then None else Some err)"

text \<open>\<open>metav1.Time.IsZero\<close>: a nil pointer or the zero time.\<close>

definition IsZero :: "int option \<Rightarrow> bool" where
  "IsZero t = (case t of None \<Rightarrow> True | Some x \<Rightarrow> x = 0)"

text \<open>The value of a secret: its \<open>Data\<close> map.\<close>

type_synonym Secret = "string \<rightharpoonup> string"

text \<open>
  A registry entry, as built by \<open>attester.NewAttester(name, policy, signer)\<close>. Policies
  and signers are opaque: \<open>'p\<close> and \<open>'s\<close>.
\<close>

datatype ('p, 's) attester = NewAttester string 'p 's

subsection \<open>Collaborators, faults and the trace\<close>

text \<open>The call sites of the source that can fail, by line.\<close>

datatype site =
    Get_l65 | Update_l232 | Update_l84 | DeleteSecret_l91 | StatusUpdate_l121
  | StatusUpdate_l249 | Update_l157 | Get_l169 | NewSecret_l182

datatype call =
    GetAttester NamespacedName
  | Update Attester
  | StatusUpdate Attester
  | CallNewPolicy string string
  | GetSecret NamespacedName
  | CallNewSecret NamespacedName
  | CallReadSigner string
  | CallDeleteSecret NamespacedName

datatype event = Call call "error option" | LogError error string

text \<open>
  What a pass is run against: the policy compiler \<open>attester.NewPolicy\<close>, the signer
  backend (\<open>attester.ReadSigner\<close>, and the generator of a new signer with its key
  material that \<open>attester.NewSecret\<close> uses), and the faults of this pass.
\<close>

record ('p, 's) env =
  NewPolicy :: "string \<Rightarrow> string \<Rightarrow> bool \<Rightarrow> error + 'p"
  ReadSigner :: "string \<Rightarrow> error + 's"
  NewSigner :: "NamespacedName \<Rightarrow> 's \<times> string"
  fault :: "site \<Rightarrow> error option"

text \<open>
  \<open>AttesterReconciler\<close>: the stores behind \<open>r.Client\<close>, the registry \<open>r.Attesters\<close>,
  and the trace of the calls made so far.
\<close>

record ('p, 's) AttesterReconciler =
  store :: "NamespacedName \<rightharpoonup> Attester"
  secrets :: "NamespacedName \<rightharpoonup> Secret"
  Attesters :: "string \<rightharpoonup> ('p, 's) attester"
  trace :: "event list"

definition ListAttesters :: "('p, 's) AttesterReconciler \<Rightarrow> string \<rightharpoonup> ('p, 's) attester" where
  "ListAttesters r = Attesters r"

definition attesterFinalizerName :: string where
  "attesterFinalizerName = ''attester.finalizers.rode.liatr.io''"

definition emit :: "event \<Rightarrow> ('p, 's) AttesterReconciler \<Rightarrow> ('p, 's) AttesterReconciler" where
  "emit e r = r\<lparr>trace := trace r @ [e]\<rparr>"

text \<open>
  Modelled from the spec: \<open>containsFinalizer\<close> and \<open>removeFinalizer\<close>, helpers of the
  package that are not in the file. The spec has the finalizers as a set of markers, a
  resource that carries the marker, and a marker that is removed.
\<close>

definition containsFinalizer :: "string list \<Rightarrow> string \<Rightarrow> bool" where
  "containsFinalizer fs n = (n \<in> set fs)"

definition removeFinalizer :: "string list \<Rightarrow> string \<Rightarrow> string list" where
  "removeFinalizer fs n = filter (\<lambda>f. f \<noteq> n) fs"

text \<open>
  The resource store (spec, section 6). \<open>get\<close> gives the resource or NotFound;
  \<open>update\<close> persists metadata and spec, \<open>updateStatus\<close> the status sub-resource, and
  both leave the caller's object as it is. An update of a resource that is not in the
  store is NotFound. The first argument is the fault of the call site.
\<close>

definition client_Get ::
  "error option \<Rightarrow> NamespacedName \<Rightarrow> ('p, 's) AttesterReconciler \<Rightarrow>
     (error + Attester) \<times> ('p, 's) AttesterReconciler" where
  "client_Get flt key r =
     (case flt of
        Some e \<Rightarrow> (Inl e, emit (Call (GetAttester key) (Some e)) r)
      | None \<Rightarrow>
          (case store r key of
             None \<Rightarrow> (Inl NotFound, emit (Call (GetAttester key) (Some NotFound)) r)
           | Some a \<Rightarrow> (Inr a, emit (Call (GetAttester key) None) r)))"

definition client_Update ::
  "error option \<Rightarrow> NamespacedName \<Rightarrow> Attester \<Rightarrow> ('p, 's) AttesterReconciler \<Rightarrow>
     error option \<times> ('p, 's) AttesterReconciler" where
  "client_Update flt key obj r =
     (case flt of
        Some e \<Rightarrow> (Some e, emit (Call (Update obj) (Some e)) r)
      | None \<Rightarrow>
          (case store r key of
             None \<Rightarrow> (Some NotFound, emit (Call (Update obj) (Some NotFound)) r)
           | Some cur \<Rightarrow>
               (None, emit (Call (Update obj) None)
                  (r\<lparr>store := (store r)(key \<mapsto> obj\<lparr>Conditions := Conditions cur\<rparr>)\<rparr>))))"

definition client_Status_Update ::
  "error option \<Rightarrow> NamespacedName \<Rightarrow> Attester \<Rightarrow> ('p, 's) AttesterReconciler \<Rightarrow>
     error option \<times> ('p, 's) AttesterReconciler" where
  "client_Status_Update flt key obj r =
     (case flt of
        Some e \<Rightarrow> (Some e, emit (Call (StatusUpdate obj) (Some e)) r)
      | None \<Rightarrow>
          (case store r key of
             None \<Rightarrow> (Some NotFound, emit (Call (StatusUpdate obj) (Some NotFound)) r)
           | Some cur \<Rightarrow>
               (None, emit (Call (StatusUpdate obj) None)
                  (r\<lparr>store := (store r)(key \<mapsto> cur\<lparr>Conditions := Conditions obj\<rparr>)\<rparr>))))"

text \<open>The secret store: \<open>r.Get\<close> of a \<open>corev1.Secret\<close> (line 169).\<close>

definition client_Get_Secret ::
  "error option \<Rightarrow> NamespacedName \<Rightarrow> ('p, 's) AttesterReconciler \<Rightarrow>
     (error + Secret) \<times> ('p, 's) AttesterReconciler" where
  "client_Get_Secret flt key r =
     (case flt of
        Some e \<Rightarrow> (Inl e, emit (Call (GetSecret key) (Some e)) r)
      | None \<Rightarrow>
          (case secrets r key of
             None \<Rightarrow> (Inl NotFound, emit (Call (GetSecret key) (Some NotFound)) r)
           | Some s \<Rightarrow> (Inr s, emit (Call (GetSecret key) None) r)))"

text \<open>
  Modelled from the spec: \<open>attester.NewSecret\<close> and \<open>attester.DeleteSecret\<close>, of the
  package pkg/attester, which is not among the sources. NewSecret generates new key
  material, persists it as a secret and returns the signer; DeleteSecret is a removal for
  which "not found" is success. The key material is stored under the key \<open>keys\<close>, where
  line 205 reads it.
\<close>

definition attester_NewSecret ::
  "('p, 's) env \<Rightarrow> NamespacedName \<Rightarrow> ('p, 's) AttesterReconciler \<Rightarrow>
     (error + 's) \<times> ('p, 's) AttesterReconciler" where
  "attester_NewSecret env key r =
     (case fault env NewSecret_l182 of
        Some e \<Rightarrow> (Inl e, emit (Call (CallNewSecret key) (Some e)) r)
      | None \<Rightarrow>
          (case NewSigner env key of
             (signer, material) \<Rightarrow>
               (Inr signer, emit (Call (CallNewSecret key) None)
                  (r\<lparr>secrets := (secrets r)(key \<mapsto> [''keys'' \<mapsto> material])\<rparr>))))"

definition attester_DeleteSecret ::
  "('p, 's) env \<Rightarrow> NamespacedName \<Rightarrow> ('p, 's) AttesterReconciler \<Rightarrow>
     error option \<times> ('p, 's) AttesterReconciler" where
  "attester_DeleteSecret env key r =
     (case fault env DeleteSecret_l91 of
        Some e \<Rightarrow> (Some e, emit (Call (CallDeleteSecret key) (Some e)) r)
      | None \<Rightarrow>
          (None, emit (Call (CallDeleteSecret key) None)
             (r\<lparr>secrets := (secrets r)(key := None)\<rparr>)))"

text \<open>The two pure collaborators, with the call recorded.\<close>

definition attester_NewPolicy ::
  "('p, 's) env \<Rightarrow> string \<Rightarrow> string \<Rightarrow> bool \<Rightarrow> ('p, 's) AttesterReconciler \<Rightarrow>
     (error + 'p) \<times> ('p, 's) AttesterReconciler" where
  "attester_NewPolicy env name src tr r =
     (case NewPolicy env name src tr of
        Inl e \<Rightarrow> (Inl e, emit (Call (CallNewPolicy name src) (Some e)) r)
      | Inr p \<Rightarrow> (Inr p, emit (Call (CallNewPolicy name src) None) r))"

definition attester_ReadSigner ::
  "('p, 's) env \<Rightarrow> string \<Rightarrow> ('p, 's) AttesterReconciler \<Rightarrow>
     (error + 's) \<times> ('p, 's) AttesterReconciler" where
  "attester_ReadSigner env buf r =
     (case ReadSigner env buf of
        Inl e \<Rightarrow> (Inl e, emit (Call (CallReadSigner buf) (Some e)) r)
      | Inr s \<Rightarrow> (Inr s, emit (Call (CallReadSigner buf) None) r))"

subsection \<open>The controller\<close>

text \<open>
  The outcome of a pass: \<open>Return err\<close> for \<open>return ctrl.Result{}, err\<close> (the result
  is empty at every return of the source), or a run-time panic of an index out of range.
\<close>

datatype outcome = Return "error option" | Panic

text \<open>\<open>conditions[i].Status = status\<close>; \<open>None\<close> when \<open>i\<close> is out of range.\<close>

definition set_Status :: "Condition list \<Rightarrow> nat \<Rightarrow> ConditionStatus \<Rightarrow> Condition list option" where
  "set_Status cs i s = (if i < length cs then Some (cs[i := (cs ! i)\<lparr>Status := s\<rparr>]) else None)"

text \<open>
  \<open>updateStatus\<close> (lines 240 to 254). The result is \<open>None\<close> when an indexed write
  panics, and otherwise the error of the status update, the caller's object as the writes
  leave it, and the new state.
\<close>

definition updateStatus ::
  "('p, 's) env \<Rightarrow> NamespacedName \<Rightarrow> Attester \<Rightarrow> ConditionType \<Rightarrow> ConditionStatus \<Rightarrow>
     ('p, 's) AttesterReconciler \<Rightarrow>
     (error option \<times> Attester \<times> ('p, 's) AttesterReconciler) option" where
  "updateStatus env key att conditionType status r =
     (case (if conditionType = ConditionCompiled then set_Status (Conditions att) 0 status
            else Some (Conditions att)) of
        None \<Rightarrow> None
      | Some cs1 \<Rightarrow>
          (case (if conditionType = ConditionSecret then set_Status cs1 1 status
                 else Some cs1) of
             None \<Rightarrow> None
           | Some cs2 \<Rightarrow>
               (case client_Status_Update (fault env StatusUpdate_l249) key
                       (att\<lparr>Conditions := cs2\<rparr>) r of
                  (err, r') \<Rightarrow> Some (err, att\<lparr>Conditions := cs2\<rparr>, r'))))"

text \<open>
  \<open>registerFinalizer\<close> (lines 226 to 238). The finalizer is appended to the caller's
  object before the update, so the object carries it whether the update succeeds or not.
\<close>

definition registerFinalizer ::
  "('p, 's) env \<Rightarrow> NamespacedName \<Rightarrow> Attester \<Rightarrow> ('p, 's) AttesterReconciler \<Rightarrow>
     error option \<times> Attester \<times> ('p, 's) AttesterReconciler" where
  "registerFinalizer env key att r =
     (if IsZero (DeletionTimestamp att) \<and>
         \<not> containsFinalizer (Finalizers att) attesterFinalizerName
      then
        (case client_Update (fault env Update_l232) key
                (att\<lparr>Finalizers := Finalizers att @ [attesterFinalizerName]\<rparr>) r of
           (err, r') \<Rightarrow> (err, att\<lparr>Finalizers := Finalizers att @ [attesterFinalizerName]\<rparr>, r'))
      else (None, att, r))"

text \<open>Lines 79 to 103: the body of the deletion branch.\<close>

definition Reconcile_delete ::
  "('p, 's) env \<Rightarrow> Request \<Rightarrow> Attester \<Rightarrow> ('p, 's) AttesterReconciler \<Rightarrow>
     outcome \<times> ('p, 's) AttesterReconciler" where
  "Reconcile_delete env req att r =
     (case client_Update (fault env Update_l84) (NamespacedName req)
             (att\<lparr>Finalizers := removeFinalizer (Finalizers att) attesterFinalizerName\<rparr>) r of
        (Some err, r1) \<Rightarrow> (Return (Some err), emit (LogError err ''Error Removing the finalizer'') r1)
      | (None, r1) \<Rightarrow>
          (case attester_DeleteSecret env (Namespace req, PgpSecret att) r1 of
             (err, r2) \<Rightarrow>
               (Return err,
                (case err of
                   Some e \<Rightarrow> emit (LogError e ''Failed to delete the secret'') r2
                 | None \<Rightarrow> r2)
                \<lparr>Attesters := (Attesters r2)(String (NamespacedName req) := None)\<rparr>)))"

text \<open>Lines 151 to 223: secret reference, secret resolution and registry publish.\<close>

definition Reconcile_secret ::
  "('p, 's) env \<Rightarrow> Request \<Rightarrow> Attester \<Rightarrow> 'p \<Rightarrow> ('p, 's) AttesterReconciler \<Rightarrow>
     outcome \<times> ('p, 's) AttesterReconciler" where
  "Reconcile_secret env req att policy r =
     (if PgpSecret att = ''''
      then
        (case client_Update (fault env Update_l157) (NamespacedName req)
                (att\<lparr>PgpSecret := Name req\<rparr>) r of
           (Some err, r1) \<Rightarrow>
             (Return (Some err),
              emit (LogError err ''Could not update the Attester's PgpSecret field'') r1)
         | (None, r1) \<Rightarrow> (Return None, r1))
      else
        (case client_Get_Secret (fault env Get_l169) (Namespace req, PgpSecret att) r of
           (Inl err, r1) \<Rightarrow>
             (if \<not> IsNotFound err
              then (Return (Some err), emit (LogError err ''Unable to get the secret'') r1)
              else
                (case attester_NewSecret env (Namespace req, PgpSecret att) r1 of
                   (Inl err2, r2) \<Rightarrow>
                     (case updateStatus env (NamespacedName req) att ConditionSecret
                             ConditionStatusFalse
                             (emit (LogError err2 ''Failed to create the signer secret'') r2) of
                        None \<Rightarrow> (Panic, emit (LogError err2 ''Failed to create the signer secret'') r2)
                      | Some (Some err3, att', r3) \<Rightarrow>
                          (Return (Some err3),
                           emit (LogError err3 ''Unable to update Attester's secret status to false'') r3)
                      | Some (None, att', r3) \<Rightarrow> (Return None, r3))
                 | (Inr signer, r2) \<Rightarrow>
                     (case updateStatus env (NamespacedName req) att ConditionSecret
                             ConditionStatusTrue r2 of
                        None \<Rightarrow> (Panic, r2)
                      | Some (err3, att', r3) \<Rightarrow>
                          (Return None,
                           (case err3 of
                              Some e \<Rightarrow>
                                emit (LogError e ''Unable to update Attester's secret status to true'') r3
                            | None \<Rightarrow> r3)
                           \<lparr>Attesters := (Attesters r3)(String (NamespacedName req) \<mapsto>
                               NewAttester (String (NamespacedName req)) policy signer)\<rparr>))))
         | (Inr signerSecret, r1) \<Rightarrow>
             (case attester_ReadSigner env
                     (case signerSecret ''keys'' of None \<Rightarrow> '''' | Some b \<Rightarrow> b) r1 of
                (Inl err2, r2) \<Rightarrow>
                  (case updateStatus env (NamespacedName req) att ConditionSecret
                          ConditionStatusFalse
                          (emit (LogError err2 ''Unable to create signer from secret'') r2) of
                     None \<Rightarrow> (Panic, emit (LogError err2 ''Unable to create signer from secret'') r2)
                   | Some (err3, att', r3) \<Rightarrow> (Return err3, r3))
              | (Inr signer, r2) \<Rightarrow>
                  (case updateStatus env (NamespacedName req) att ConditionSecret
                          ConditionStatusTrue r2 of
                     None \<Rightarrow> (Panic, r2)
                   | Some (err3, att', r3) \<Rightarrow>
                       (Return None,
                        (case err3 of
                           Some e \<Rightarrow>
                             emit (LogError e ''Unable to update Attester's secret status to true'') r3
                         | None \<Rightarrow> r3)
                        \<lparr>Attesters := (Attesters r3)(String (NamespacedName req) \<mapsto>
                            NewAttester (String (NamespacedName req)) policy signer)\<rparr>)))))"

text \<open>Lines 127 to 149: the recompilation, and the Compiled condition.\<close>

definition Reconcile_compile ::
  "('p, 's) env \<Rightarrow> Request \<Rightarrow> Attester \<Rightarrow> ('p, 's) AttesterReconciler \<Rightarrow>
     outcome \<times> ('p, 's) AttesterReconciler" where
  "Reconcile_compile env req att r =
     (case attester_NewPolicy env (Name req) (Policy att) False r of
        (Inl err, r1) \<Rightarrow>
          (case updateStatus env (NamespacedName req) att ConditionCompiled ConditionStatusFalse
                  (emit (LogError err ''Unable to create policy'') r1) of
             None \<Rightarrow> (Panic, emit (LogError err ''Unable to create policy'') r1)
           | Some (Some err2, att', r2) \<Rightarrow>
               (Return (Some err2),
                emit (LogError err2 ''Unable to update Attester's compiled status to false'') r2)
           | Some (None, att', r2) \<Rightarrow> (Return None, r2))
      | (Inr policy, r1) \<Rightarrow>
          (case Conditions att of
             [] \<Rightarrow> (Panic, r1)
           | c # cs \<Rightarrow>
               (if Status c \<noteq> ConditionStatusTrue
                then
                  (case updateStatus env (NamespacedName req) att ConditionCompiled
                          ConditionStatusTrue r1 of
                     None \<Rightarrow> (Panic, r1)
                   | Some (Some err2, att', r2) \<Rightarrow>
                       (Return None,
                        emit (LogError err2 ''Unable to update Attester's compiled status to true'') r2)
                   | Some (None, att', r2) \<Rightarrow> (Return None, r2))
                else Reconcile_secret env req att policy r1)))"

text \<open>Lines 105 to 125: the initialisation of the conditions.\<close>

definition Reconcile_init ::
  "('p, 's) env \<Rightarrow> Request \<Rightarrow> Attester \<Rightarrow> ('p, 's) AttesterReconciler \<Rightarrow>
     outcome \<times> ('p, 's) AttesterReconciler" where
  "Reconcile_init env req att r =
     (if length (Conditions att) = 0
      then
        (case client_Status_Update (fault env StatusUpdate_l121) (NamespacedName req)
                (att\<lparr>Conditions := (Conditions att @
                     [\<lparr>Type = ConditionCompiled, Status = ConditionStatusFalse\<rparr>]) @
                     [\<lparr>Type = ConditionSecret, Status = ConditionStatusFalse\<rparr>]\<rparr>) r of
           (Some err, r1) \<Rightarrow>
             (Return (Some err), emit (LogError err ''Unable to initialize attester status'') r1)
         | (None, r1) \<Rightarrow>
             Reconcile_compile env req
               (att\<lparr>Conditions := (Conditions att @
                    [\<lparr>Type = ConditionCompiled, Status = ConditionStatusFalse\<rparr>]) @
                    [\<lparr>Type = ConditionSecret, Status = ConditionStatusFalse\<rparr>]\<rparr>) r1)
      else Reconcile_compile env req att r)"

text \<open>\<open>Reconcile\<close> (lines 57 to 224).\<close>

definition Reconcile ::
  "('p, 's) env \<Rightarrow> Request \<Rightarrow> ('p, 's) AttesterReconciler \<Rightarrow>
     outcome \<times> ('p, 's) AttesterReconciler" where
  "Reconcile env req r =
     (case client_Get (fault env Get_l65) (NamespacedName req) r of
        (Inl err, r1) \<Rightarrow>
          (Return (IgnoreNotFound err), emit (LogError err ''Unable to load attester'') r1)
      | (Inr att0, r1) \<Rightarrow>
          (case registerFinalizer env (NamespacedName req) att0 r1 of
             (ferr, att, r2) \<Rightarrow>
               (if \<not> IsZero (DeletionTimestamp att) \<and>
                   containsFinalizer (Finalizers att) attesterFinalizerName
                then Reconcile_delete env req att
                       (case ferr of
                          Some e \<Rightarrow> emit (LogError e ''Error registering finalizer'') r2
                        | None \<Rightarrow> r2)
                else Reconcile_init env req att
                       (case ferr of
                          Some e \<Rightarrow> emit (LogError e ''Error registering finalizer'') r2
                        | None \<Rightarrow> r2))))"

subsection \<open>Observations on a pass\<close>

text \<open>The events a pass appends to the trace: those of \<open>r'\<close> beyond those of \<open>r\<close>.\<close>

definition new_events ::
  "('p, 's) AttesterReconciler \<Rightarrow> ('p, 's) AttesterReconciler \<Rightarrow> event list" where
  "new_events r r' = drop (length (trace r)) (trace r')"

text \<open>A persisted write of the resource: a resource update or a status update.\<close>

fun is_persist :: "event \<Rightarrow> bool" where
  "is_persist (Call (Update obj) e) = True"
| "is_persist (Call (StatusUpdate obj) e) = True"
| "is_persist ev = False"

text \<open>A call that handles the secret: fetching, creating, parsing or deleting it.\<close>

fun is_secret_call :: "event \<Rightarrow> bool" where
  "is_secret_call (Call (GetSecret k) e) = True"
| "is_secret_call (Call (CallNewSecret k) e) = True"
| "is_secret_call (Call (CallReadSigner b) e) = True"
| "is_secret_call (Call (CallDeleteSecret k) e) = True"
| "is_secret_call ev = False"

fun is_NewSecret :: "event \<Rightarrow> bool" where
  "is_NewSecret (Call (CallNewSecret k) e) = True"
| "is_NewSecret ev = False"

text \<open>A resource update that succeeded and whose object carries the guard marker.\<close>

fun persists_marker :: "event \<Rightarrow> bool" where
  "persists_marker (Call (Update obj) None) =
     containsFinalizer (Finalizers obj) attesterFinalizerName"
| "persists_marker ev = False"

text \<open>The conditions a status update sends, with the error it returned.\<close>

fun status_write :: "event \<Rightarrow> (Condition list \<times> error option) option" where
  "status_write (Call (StatusUpdate obj) e) = Some (Conditions obj, e)"
| "status_write ev = None"

definition status_writes :: "event list \<Rightarrow> (Condition list \<times> error option) list" where
  "status_writes tr = List.map_filter status_write tr"

text \<open>
  An event of the normal path on a resource whose finalizers are \<open>fs\<close>: no secret is
  deleted, and every resource update sends the finalizers \<open>fs\<close>.
\<close>

fun keeps_finalizers :: "string list \<Rightarrow> event \<Rightarrow> bool" where
  "keeps_finalizers fs (Call (Update obj) e) = (Finalizers obj = fs)"
| "keeps_finalizers fs (Call (CallDeleteSecret k) e) = False"
| "keeps_finalizers fs ev = True"

text \<open>The status of the Compiled condition (index 0) of a stored resource, if there is one.\<close>

definition stored_Compiled ::
  "('p, 's) AttesterReconciler \<Rightarrow> NamespacedName \<Rightarrow> ConditionStatus option" where
  "stored_Compiled r key =
     (case store r key of
        None \<Rightarrow> None
      | Some a \<Rightarrow> (case Conditions a of [] \<Rightarrow> None | c # cs \<Rightarrow> Some (Status c)))"

text \<open>A registry entry that is present, under the name \<open>k\<close>, with the policy \<open>p\<close>.\<close>

definition entry_from :: "string \<Rightarrow> 'p \<Rightarrow> ('p, 's) attester option \<Rightarrow> bool" where
  "entry_from k p ent =
     (case ent of None \<Rightarrow> False | Some (NewAttester n p' s) \<Rightarrow> n = k \<and> p' = p)"

text \<open>The deletion branch is taken for a resource marked for deletion that carries the marker.\<close>

definition deletion_branch :: "Attester \<Rightarrow> bool" where
  "deletion_branch a =
     (\<not> IsZero (DeletionTimestamp a) \<and> containsFinalizer (Finalizers a) attesterFinalizerName)"

subsection \<open>Example states\<close>

text \<open>
  A compiler that rejects the source \<open>bad\<close>, a signer backend that rejects the key
  material \<open>garbage\<close>, and no fault.
\<close>

definition env_ok :: "(string, string) env" where
  "env_ok =
     \<lparr>NewPolicy = (\<lambda>name src tr. if src = ''bad'' then Inl (Failure ''compile'') else Inr src),
      ReadSigner = (\<lambda>buf. if buf = ''garbage'' then Inl (Failure ''parse'') else Inr buf),
      NewSigner = (\<lambda>key. (''signer'', ''signer'')),
      fault = (\<lambda>s. None)\<rparr>"

definition env_fault :: "site \<Rightarrow> error \<Rightarrow> (string, string) env" where
  "env_fault s e = env_ok\<lparr>fault := (\<lambda>s'. if s' = s then Some e else None)\<rparr>"

definition req_a :: Request where
  "req_a = \<lparr>Namespace = ''ns'', Name = ''a''\<rparr>"

definition Compiled_is :: "ConditionStatus \<Rightarrow> Condition" where
  "Compiled_is s = \<lparr>Type = ConditionCompiled, Status = s\<rparr>"

definition Secret_is :: "ConditionStatus \<Rightarrow> Condition" where
  "Secret_is s = \<lparr>Type = ConditionSecret, Status = s\<rparr>"

text \<open>A resource as it is created: no marker, no conditions, no secret reference.\<close>

definition att_fresh :: Attester where
  "att_fresh =
     \<lparr>DeletionTimestamp = None, Finalizers = [], Policy = ''ok'', PgpSecret = [],
      Conditions = []\<rparr>"

text \<open>A resource that has converged.\<close>

definition att_ready :: Attester where
  "att_ready =
     \<lparr>DeletionTimestamp = None, Finalizers = [attesterFinalizerName], Policy = ''ok'',
      PgpSecret = ''a'',
      Conditions = [Compiled_is ConditionStatusTrue, Secret_is ConditionStatusTrue]\<rparr>"

text \<open>The converged resource, once its owner has asked for its deletion.\<close>

definition att_deleting :: Attester where
  "att_deleting = att_ready\<lparr>DeletionTimestamp := Some 1\<rparr>"

text \<open>
  A resource whose policy has compiled and whose secret reference is set, but which has
  no marker and no secret yet.
\<close>

definition att_unmarked :: Attester where
  "att_unmarked =
     att_ready\<lparr>Finalizers := [],
       Conditions := [Compiled_is ConditionStatusTrue, Secret_is ConditionStatusFalse]\<rparr>"

definition state_of ::
  "Attester \<Rightarrow> (NamespacedName \<rightharpoonup> Secret) \<Rightarrow> (string, string) AttesterReconciler" where
  "state_of a ss =
     \<lparr>store = [(''ns'', ''a'') \<mapsto> a], secrets = ss, Attesters = Map.empty, trace = []\<rparr>"

text \<open>The same state, with the entry of the resource in the registry.\<close>

definition published ::
  "Attester \<Rightarrow> (NamespacedName \<rightharpoonup> Secret) \<Rightarrow> (string, string) AttesterReconciler" where
  "published a ss =
     (state_of a ss)\<lparr>Attesters := [''ns/a'' \<mapsto> NewAttester ''ns/a'' ''ok'' ''signer'']\<rparr>"

definition secret_a :: "string \<Rightarrow> NamespacedName \<rightharpoonup> Secret" where
  "secret_a material = [(''ns'', ''a'') \<mapsto> [''keys'' \<mapsto> material]]"

text \<open>An edit of the policy source by the resource's owner, between two passes.\<close>

definition edit_Policy ::
  "NamespacedName \<Rightarrow> string \<Rightarrow> ('p, 's) AttesterReconciler \<Rightarrow> ('p, 's) AttesterReconciler" where
  "edit_Policy key src r =
     (case store r key of
        None \<Rightarrow> r
      | Some a \<Rightarrow> r\<lparr>store := (store r)(key \<mapsto> a\<lparr>Policy := src\<rparr>)\<rparr>)"

section \<open>Properties\<close>

lemmas prim_defs =
  client_Get_def client_Update_def client_Status_Update_def client_Get_Secret_def
  attester_NewSecret_def attester_DeleteSecret_def attester_NewPolicy_def
  attester_ReadSigner_def emit_def new_events_def

lemmas pass_defs =
  Reconcile_def Reconcile_init_def Reconcile_compile_def Reconcile_secret_def
  Reconcile_delete_def registerFinalizer_def updateStatus_def set_Status_def
  IgnoreNotFound_def IsNotFound_def

lemmas ex_defs =
  env_ok_def env_fault_def req_a_def att_fresh_def att_ready_def state_of_def secret_a_def
  att_deleting_def att_unmarked_def published_def
  Compiled_is_def Secret_is_def NamespacedName_def String_def attesterFinalizerName_def
  containsFinalizer_def removeFinalizer_def IsZero_def

subsection \<open>Indexed accesses to the conditions\<close>

lemma updateStatus_not_None:
  "2 \<le> length (Conditions att) \<Longrightarrow> updateStatus env key att ct s r \<noteq> None"
  by (cases ct) (auto simp add: updateStatus_def set_Status_def split: prod.split)

lemma Reconcile_secret_no_panic:
  "2 \<le> length (Conditions att) \<Longrightarrow> fst (Reconcile_secret env req att p r) \<noteq> Panic"
  by (simp add: Reconcile_secret_def updateStatus_not_None
        split: prod.split sum.split option.split)

lemma Reconcile_compile_no_panic:
  "2 \<le> length (Conditions att) \<Longrightarrow> fst (Reconcile_compile env req att r) \<noteq> Panic"
  by (cases "Conditions att")
    (simp_all add: Reconcile_compile_def updateStatus_not_None Reconcile_secret_no_panic
       split: prod.split sum.split option.split)

lemma Reconcile_init_no_panic:
  "length (Conditions att) = 0 \<or> length (Conditions att) = 2 \<Longrightarrow>
   fst (Reconcile_init env req att r) \<noteq> Panic"
  by (auto simp add: Reconcile_init_def Reconcile_compile_no_panic
        split: prod.split option.split)

lemma registerFinalizer_Conditions:
  "registerFinalizer env key att r = (err, att', r') \<Longrightarrow> Conditions att' = Conditions att"
  by (auto simp add: registerFinalizer_def split: if_splits prod.splits)

text \<open>
  C9. When the fetched resource has no condition or exactly two, no indexed access to the
  conditions made in the pass (in \<open>updateStatus\<close>, and in the test of the Compiled
  status) is out of range: the pass does not panic, whatever the collaborators answer.
\<close>

theorem conditions_access_in_bounds:
  assumes "store r (NamespacedName req) = Some a"
      and "length (Conditions a) = 0 \<or> length (Conditions a) = 2"
  shows "fst (Reconcile env req r) \<noteq> Panic"
proof (cases "client_Get (fault env Get_l65) (NamespacedName req) r")
  case (Pair res r1)
  show ?thesis
  proof (cases res)
    case (Inl e)
    with Pair show ?thesis by (simp add: Reconcile_def)
  next
    case (Inr att0)
    with Pair assms(1) have a0: "att0 = a"
      by (auto simp add: client_Get_def split: option.splits)
    obtain ferr att r2
      where rf: "registerFinalizer env (NamespacedName req) att0 r1 = (ferr, att, r2)"
      by (cases "registerFinalizer env (NamespacedName req) att0 r1") auto
    from registerFinalizer_Conditions [OF rf] a0 have c: "Conditions att = Conditions a"
      by simp
    have d: "fst (Reconcile_delete env req att rr) \<noteq> Panic" for rr
      by (simp add: Reconcile_delete_def split: prod.split option.split)
    from assms(2) c have "fst (Reconcile_init env req att rr) \<noteq> Panic" for rr
      using Reconcile_init_no_panic [of att env req rr] by simp
    with d Pair Inr rf show ?thesis
      by (simp add: Reconcile_def)
  qed
qed

theorem conditions_access_in_bounds_witness:
  "store (state_of att_ready (secret_a ''signer'')) (NamespacedName req_a) = Some att_ready \<and>
   length (Conditions att_ready) = 2 \<and>
   fst (Reconcile env_ok req_a (state_of att_ready (secret_a ''signer''))) \<noteq> Panic"
proof -
  have h1: "store (state_of att_ready (secret_a ''signer'')) (NamespacedName req_a) = Some att_ready"
    by (simp add: ex_defs)
  have h2: "length (Conditions att_ready) = 2"
    by (simp add: ex_defs)
  from h2 have h3: "length (Conditions att_ready) = 0 \<or> length (Conditions att_ready) = 2"
    by simp
  from h1 h2 conditions_access_in_bounds [OF h1 h3, of env_ok] show ?thesis
    by simp
qed

text \<open>
  The precondition of C9 is needed: on a stored resource with the single condition
  Compiled=True, a secret reference and a secret that parses, the write of slot 1 panics.
\<close>

lemma one_condition_panics:
  "fst (Reconcile env_ok req_a
          (state_of (att_ready\<lparr>Conditions := [Compiled_is ConditionStatusTrue]\<rparr>)
             (secret_a ''signer''))) = Panic"
  by (simp add: Reconcile_def Reconcile_init_def Reconcile_compile_def Reconcile_secret_def
        registerFinalizer_def updateStatus_def set_Status_def prim_defs ex_defs)

subsection \<open>The deletion branch\<close>

text \<open>
  C5. In a pass that takes the deletion branch, the update that removes the guard marker
  comes first. If it fails, the pass returns its error after logging it: no secret
  deletion is attempted, and the stores and the registry are as before. If it succeeds,
  the stored resource no longer carries the marker when the secret deletion is called,
  which is the next call of the pass.
\<close>

theorem deletion_persists_removal_first:
  assumes "store r (NamespacedName req) = Some a" and "fault env Get_l65 = None"
      and "\<not> IsZero (DeletionTimestamp a)"
      and "containsFinalizer (Finalizers a) attesterFinalizerName"
      and "Reconcile env req r = (out, r')"
  shows "(case fault env Update_l84 of
           Some e \<Rightarrow>
             out = Return (Some e) \<and>
             new_events r r' =
               [Call (GetAttester (NamespacedName req)) None,
                Call (Update (a\<lparr>Finalizers :=
                   removeFinalizer (Finalizers a) attesterFinalizerName\<rparr>)) (Some e),
                LogError e ''Error Removing the finalizer''] \<and>
             store r' = store r \<and> secrets r' = secrets r \<and> Attesters r' = Attesters r
         | None \<Rightarrow>
             take 3 (new_events r r') =
               [Call (GetAttester (NamespacedName req)) None,
                Call (Update (a\<lparr>Finalizers :=
                   removeFinalizer (Finalizers a) attesterFinalizerName\<rparr>)) None,
                Call (CallDeleteSecret (Namespace req, PgpSecret a))
                  (fault env DeleteSecret_l91)] \<and>
             store r' (NamespacedName req) =
               Some (a\<lparr>Finalizers := removeFinalizer (Finalizers a) attesterFinalizerName\<rparr>))"
  using assms
  by (cases "fault env Update_l84"; cases "fault env DeleteSecret_l91")
     (auto simp add: Reconcile_def registerFinalizer_def Reconcile_delete_def prim_defs)

theorem deletion_persists_removal_first_witness:
  "new_events (state_of (att_ready\<lparr>DeletionTimestamp := Some 1\<rparr>) (secret_a ''signer''))
     (snd (Reconcile (env_fault Update_l84 (Failure ''conflict'')) req_a
        (state_of (att_ready\<lparr>DeletionTimestamp := Some 1\<rparr>) (secret_a ''signer'')))) =
     [Call (GetAttester (''ns'', ''a'')) None,
      Call (Update (att_ready\<lparr>DeletionTimestamp := Some 1, Finalizers := []\<rparr>))
        (Some (Failure ''conflict'')),
      LogError (Failure ''conflict'') ''Error Removing the finalizer''] \<and>
   fst (Reconcile (env_fault Update_l84 (Failure ''conflict'')) req_a
        (state_of (att_ready\<lparr>DeletionTimestamp := Some 1\<rparr>) (secret_a ''signer''))) =
     Return (Some (Failure ''conflict''))"
proof -
  let ?r = "state_of (att_ready\<lparr>DeletionTimestamp := Some 1\<rparr>) (secret_a ''signer'')"
  let ?env = "env_fault Update_l84 (Failure ''conflict'')"
  have h1: "store ?r (NamespacedName req_a) = Some (att_ready\<lparr>DeletionTimestamp := Some 1\<rparr>)"
    by (simp add: ex_defs)
  have h2: "fault ?env Get_l65 = None"
    by (simp add: ex_defs)
  have h3: "\<not> IsZero (DeletionTimestamp (att_ready\<lparr>DeletionTimestamp := Some 1\<rparr>))"
    by (simp add: ex_defs)
  have h4: "containsFinalizer (Finalizers (att_ready\<lparr>DeletionTimestamp := Some 1\<rparr>))
              attesterFinalizerName"
    by (simp add: ex_defs)
  have h5: "Reconcile ?env req_a ?r = (fst (Reconcile ?env req_a ?r), snd (Reconcile ?env req_a ?r))"
    by simp
  have f: "fault ?env Update_l84 = Some (Failure ''conflict'')"
    by (simp add: ex_defs)
  from deletion_persists_removal_first [OF h1 h2 h3 h4 h5] f show ?thesis
    by (simp add: ex_defs)
qed

text \<open>
  C4, as the code has it. In a pass that takes the deletion branch and has persisted the
  removal of the marker, a failure of the secret deletion is logged and does not stop the
  pass: the registry entry is removed all the same. The error is then returned to the
  caller.
\<close>

theorem secret_deletion_failure_returned:
  assumes "store r (NamespacedName req) = Some a" and "fault env Get_l65 = None"
      and "\<not> IsZero (DeletionTimestamp a)"
      and "containsFinalizer (Finalizers a) attesterFinalizerName"
      and "fault env Update_l84 = None"
      and "fault env DeleteSecret_l91 = Some e"
      and "Reconcile env req r = (out, r')"
  shows "out = Return (Some e) \<and>
         drop 2 (new_events r r') =
           [Call (CallDeleteSecret (Namespace req, PgpSecret a)) (Some e),
            LogError e ''Failed to delete the secret''] \<and>
         Attesters r' = (Attesters r)(String (NamespacedName req) := None)"
  using assms
  by (auto simp add: pass_defs prim_defs)

theorem secret_deletion_failure_returned_witness:
  "fst (Reconcile (env_fault DeleteSecret_l91 (Failure ''forbidden'')) req_a
          (published att_deleting (secret_a ''signer''))) =
     Return (Some (Failure ''forbidden'')) \<and>
   Attesters (published att_deleting (secret_a ''signer'')) ''ns/a'' =
     Some (NewAttester ''ns/a'' ''ok'' ''signer'') \<and>
   Attesters (snd (Reconcile (env_fault DeleteSecret_l91 (Failure ''forbidden'')) req_a
          (published att_deleting (secret_a ''signer'')))) ''ns/a'' = None"
proof -
  let ?r = "published att_deleting (secret_a ''signer'')"
  let ?env = "env_fault DeleteSecret_l91 (Failure ''forbidden'')"
  have h1: "store ?r (NamespacedName req_a) = Some att_deleting"
    by (simp add: ex_defs)
  have h2: "fault ?env Get_l65 = None"
    by (simp add: ex_defs)
  have h3: "\<not> IsZero (DeletionTimestamp att_deleting)"
    by (simp add: ex_defs)
  have h4: "containsFinalizer (Finalizers att_deleting) attesterFinalizerName"
    by (simp add: ex_defs)
  have h5: "fault ?env Update_l84 = None"
    by (simp add: ex_defs)
  have h6: "fault ?env DeleteSecret_l91 = Some (Failure ''forbidden'')"
    by (simp add: ex_defs)
  have h7: "Reconcile ?env req_a ?r = (fst (Reconcile ?env req_a ?r), snd (Reconcile ?env req_a ?r))"
    by simp
  from secret_deletion_failure_returned [OF h1 h2 h3 h4 h5 h6 h7] show ?thesis
    by (simp add: ex_defs)
qed

text \<open>
  C4, as it is stated, fails: the secret deletion fails with an error, and \<open>Reconcile\<close>
  returns that very error.
\<close>

theorem secret_deletion_error_reaches_caller:
  "deletion_branch att_deleting \<and>
   fault (env_fault DeleteSecret_l91 (Failure ''unavailable'')) Update_l84 = None \<and>
   fault (env_fault DeleteSecret_l91 (Failure ''unavailable'')) DeleteSecret_l91 =
     Some (Failure ''unavailable'') \<and>
   fst (Reconcile (env_fault DeleteSecret_l91 (Failure ''unavailable'')) req_a
          (state_of att_deleting (secret_a ''signer''))) =
     Return (Some (Failure ''unavailable''))"
  by (simp add: pass_defs prim_defs ex_defs deletion_branch_def)

subsection \<open>The initialisation of the conditions\<close>

text \<open>
  C7. A pass that fetches a resource with no condition, and does not take the deletion
  branch, sends one status update with exactly two conditions, Compiled and then
  SecretReady, both False. If that update fails, the pass returns its error. If it
  succeeds the pass goes on: it compiles the policy, and sends a second status update
  for the Compiled condition.
\<close>

theorem conditions_initialised:
  assumes "store r (NamespacedName req) = Some a" and "fault env Get_l65 = None"
      and "\<not> deletion_branch a"
      and "Conditions a = []"
      and "Reconcile env req r = (out, r')"
  shows "(case fault env StatusUpdate_l121 of
            Some e \<Rightarrow>
              out = Return (Some e) \<and>
              status_writes (new_events r r') =
                [([\<lparr>Type = ConditionCompiled, Status = ConditionStatusFalse\<rparr>,
                   \<lparr>Type = ConditionSecret, Status = ConditionStatusFalse\<rparr>], Some e)] \<and>
              filter is_secret_call (new_events r r') = []
          | None \<Rightarrow>
              status_writes (new_events r r') =
                [([\<lparr>Type = ConditionCompiled, Status = ConditionStatusFalse\<rparr>,
                   \<lparr>Type = ConditionSecret, Status = ConditionStatusFalse\<rparr>], None),
                 ([\<lparr>Type = ConditionCompiled,
                     Status = (case NewPolicy env (Name req) (Policy a) False of
                                 Inl e \<Rightarrow> ConditionStatusFalse | Inr p \<Rightarrow> ConditionStatusTrue)\<rparr>,
                   \<lparr>Type = ConditionSecret, Status = ConditionStatusFalse\<rparr>],
                  fault env StatusUpdate_l249)] \<and>
              Call (CallNewPolicy (Name req) (Policy a))
                (case NewPolicy env (Name req) (Policy a) False of
                   Inl e \<Rightarrow> Some e | Inr p \<Rightarrow> None) \<in> set (new_events r r'))"
  using assms
  by (cases "IsZero (DeletionTimestamp a) \<and>
              \<not> containsFinalizer (Finalizers a) attesterFinalizerName";
      cases "fault env Update_l232"; cases "fault env StatusUpdate_l121";
      cases "NewPolicy env (Name req) (Policy a) False"; cases "fault env StatusUpdate_l249")
     (auto simp add: pass_defs prim_defs deletion_branch_def status_writes_def
        List.map_filter_simps)

theorem conditions_initialised_witness:
  "status_writes (new_events (state_of att_fresh Map.empty)
      (snd (Reconcile env_ok req_a (state_of att_fresh Map.empty)))) =
     [([Compiled_is ConditionStatusFalse, Secret_is ConditionStatusFalse], None),
      ([Compiled_is ConditionStatusTrue, Secret_is ConditionStatusFalse], None)] \<and>
   Call (CallNewPolicy ''a'' ''ok'') None \<in>
     set (new_events (state_of att_fresh Map.empty)
      (snd (Reconcile env_ok req_a (state_of att_fresh Map.empty))))"
proof -
  let ?r = "state_of att_fresh Map.empty"
  have h1: "store ?r (NamespacedName req_a) = Some att_fresh"
    by (simp add: ex_defs)
  have h2: "fault env_ok Get_l65 = None"
    by (simp add: ex_defs)
  have h3: "\<not> deletion_branch att_fresh"
    by (simp add: ex_defs deletion_branch_def)
  have h4: "Conditions att_fresh = []"
    by (simp add: ex_defs)
  have h5: "Reconcile env_ok req_a ?r = (fst (Reconcile env_ok req_a ?r), snd (Reconcile env_ok req_a ?r))"
    by simp
  from conditions_initialised [OF h1 h2 h3 h4 h5] show ?thesis
    by (simp add: ex_defs)
qed

subsection \<open>The policy compilation gate\<close>

text \<open>
  C2, as the code has it. In a pass that reaches the compilation and whose policy source
  does not compile, the compilation error is logged, the Compiled condition is set to
  False and sent in a status update, and the pass stops there: no call handles the
  secret, and the secret store and the registry are as before. What the pass returns is
  the error of that status update, so no error when the update succeeds; when it
  succeeds, the stored Compiled condition is False.
\<close>

theorem compile_failure_pass:
  assumes "store r (NamespacedName req) = Some a" and "fault env Get_l65 = None"
      and "\<not> deletion_branch a"
      and "Conditions a \<noteq> [] \<or> fault env StatusUpdate_l121 = None"
      and "NewPolicy env (Name req) (Policy a) False = Inl e"
      and "Reconcile env req r = (out, r')"
  shows "out = Return (fault env StatusUpdate_l249) \<and>
         LogError e ''Unable to create policy'' \<in> set (new_events r r') \<and>
         last (status_writes (new_events r r')) =
           ((case Conditions a of
               [] \<Rightarrow> [\<lparr>Type = ConditionCompiled, Status = ConditionStatusFalse\<rparr>,
                      \<lparr>Type = ConditionSecret, Status = ConditionStatusFalse\<rparr>]
             | c # cs \<Rightarrow> c\<lparr>Status := ConditionStatusFalse\<rparr> # cs),
            fault env StatusUpdate_l249) \<and>
         (fault env StatusUpdate_l249 = None \<longrightarrow>
            stored_Compiled r' (NamespacedName req) = Some ConditionStatusFalse) \<and>
         filter is_secret_call (new_events r r') = [] \<and>
         secrets r' = secrets r \<and> Attesters r' = Attesters r"
  using assms
  by (cases "IsZero (DeletionTimestamp a) \<and>
              \<not> containsFinalizer (Finalizers a) attesterFinalizerName";
      cases "fault env Update_l232"; cases "fault env StatusUpdate_l249";
      cases "Conditions a")
     (auto simp add: pass_defs prim_defs deletion_branch_def status_writes_def
        List.map_filter_simps stored_Compiled_def)

theorem compile_failure_pass_witness:
  "fst (Reconcile (env_fault StatusUpdate_l249 (Failure ''conflict'')) req_a
          (state_of (att_ready\<lparr>Policy := ''bad''\<rparr>) (secret_a ''signer''))) =
     Return (Some (Failure ''conflict'')) \<and>
   LogError (Failure ''compile'') ''Unable to create policy'' \<in>
     set (new_events (state_of (att_ready\<lparr>Policy := ''bad''\<rparr>) (secret_a ''signer''))
       (snd (Reconcile (env_fault StatusUpdate_l249 (Failure ''conflict'')) req_a
          (state_of (att_ready\<lparr>Policy := ''bad''\<rparr>) (secret_a ''signer''))))) \<and>
   filter is_secret_call
     (new_events (state_of (att_ready\<lparr>Policy := ''bad''\<rparr>) (secret_a ''signer''))
       (snd (Reconcile (env_fault StatusUpdate_l249 (Failure ''conflict'')) req_a
          (state_of (att_ready\<lparr>Policy := ''bad''\<rparr>) (secret_a ''signer''))))) = []"
proof -
  let ?r = "state_of (att_ready\<lparr>Policy := ''bad''\<rparr>) (secret_a ''signer'')"
  let ?env = "env_fault StatusUpdate_l249 (Failure ''conflict'')"
  have h1: "store ?r (NamespacedName req_a) = Some (att_ready\<lparr>Policy := ''bad''\<rparr>)"
    by (simp add: ex_defs)
  have h2: "fault ?env Get_l65 = None"
    by (simp add: ex_defs)
  have h3: "\<not> deletion_branch (att_ready\<lparr>Policy := ''bad''\<rparr>)"
    by (simp add: ex_defs deletion_branch_def)
  have h4: "Conditions (att_ready\<lparr>Policy := ''bad''\<rparr>) \<noteq> [] \<or>
            fault ?env StatusUpdate_l121 = None"
    by (simp add: ex_defs)
  have h5: "NewPolicy ?env (Name req_a) (Policy (att_ready\<lparr>Policy := ''bad''\<rparr>)) False =
            Inl (Failure ''compile'')"
    by (simp add: ex_defs)
  have h6: "Reconcile ?env req_a ?r = (fst (Reconcile ?env req_a ?r), snd (Reconcile ?env req_a ?r))"
    by simp
  from compile_failure_pass [OF h1 h2 h3 h4 h5 h6] show ?thesis
    by (simp add: ex_defs)
qed

text \<open>
  C2, as it is stated, fails: the policy source does not compile, the status update
  succeeds, and \<open>Reconcile\<close> returns no error.
\<close>

theorem compile_failure_returns_no_error:
  "NewPolicy env_ok (Name req_a) (Policy (att_ready\<lparr>Policy := ''bad''\<rparr>)) False =
     Inl (Failure ''compile'') \<and>
   fst (Reconcile env_ok req_a (state_of (att_ready\<lparr>Policy := ''bad''\<rparr>) (secret_a ''signer''))) =
     Return None \<and>
   stored_Compiled
     (snd (Reconcile env_ok req_a (state_of (att_ready\<lparr>Policy := ''bad''\<rparr>) (secret_a ''signer''))))
     (''ns'', ''a'') = Some ConditionStatusFalse"
  by (simp add: pass_defs prim_defs ex_defs stored_Compiled_def)

subsection \<open>A secret that does not parse\<close>

text \<open>
  C8. The fetched resource has Compiled=True in slot 0 and a second condition, its
  policy compiles, it has a secret reference, and the secret is found but its key
  material does not parse. Then the only status update of the pass sets slot 1,
  SecretReady, to False and leaves the other conditions as they were; the stored Compiled
  condition is True after the pass, whether that update succeeded or not; and the
  registry is as before.
\<close>

theorem unparsable_secret_pass:
  assumes "store r (NamespacedName req) = Some a" and "fault env Get_l65 = None"
      and "\<not> deletion_branch a"
      and "Conditions a = c0 # c1 # cs" and "Status c0 = ConditionStatusTrue"
      and "NewPolicy env (Name req) (Policy a) False = Inr p"
      and "PgpSecret a \<noteq> []" and "fault env Get_l169 = None"
      and "secrets r (Namespace req, PgpSecret a) = Some s"
      and "ReadSigner env (case s ''keys'' of None \<Rightarrow> [] | Some b \<Rightarrow> b) = Inl e"
      and "Reconcile env req r = (out, r')"
  shows "status_writes (new_events r r') =
           [(c0 # c1\<lparr>Status := ConditionStatusFalse\<rparr> # cs, fault env StatusUpdate_l249)] \<and>
         stored_Compiled r' (NamespacedName req) = Some ConditionStatusTrue \<and>
         (fault env StatusUpdate_l249 = None \<longrightarrow>
            map_option Conditions (store r' (NamespacedName req)) =
              Some (c0 # c1\<lparr>Status := ConditionStatusFalse\<rparr> # cs)) \<and>
         Attesters r' = Attesters r \<and> secrets r' = secrets r \<and>
         out = Return (fault env StatusUpdate_l249)"
  using assms
  by (cases "IsZero (DeletionTimestamp a) \<and>
              \<not> containsFinalizer (Finalizers a) attesterFinalizerName";
      cases "fault env Update_l232"; cases "fault env StatusUpdate_l249")
     (auto simp add: pass_defs prim_defs deletion_branch_def status_writes_def
        List.map_filter_simps stored_Compiled_def)

theorem unparsable_secret_pass_witness:
  "map_option Conditions
     (store (snd (Reconcile env_ok req_a (state_of att_ready (secret_a ''garbage''))))
        (''ns'', ''a'')) =
     Some [Compiled_is ConditionStatusTrue, Secret_is ConditionStatusFalse] \<and>
   Attesters (snd (Reconcile env_ok req_a (state_of att_ready (secret_a ''garbage'')))) =
     Map.empty"
proof -
  let ?r = "state_of att_ready (secret_a ''garbage'')"
  have h1: "store ?r (NamespacedName req_a) = Some att_ready"
    by (simp add: ex_defs)
  have h2: "fault env_ok Get_l65 = None"
    by (simp add: ex_defs)
  have h3: "\<not> deletion_branch att_ready"
    by (simp add: ex_defs deletion_branch_def)
  have h4: "Conditions att_ready =
              Compiled_is ConditionStatusTrue # Secret_is ConditionStatusTrue # []"
    by (simp add: ex_defs)
  have h5: "Status (Compiled_is ConditionStatusTrue) = ConditionStatusTrue"
    by (simp add: ex_defs)
  have h6: "NewPolicy env_ok (Name req_a) (Policy att_ready) False = Inr ''ok''"
    by (simp add: ex_defs)
  have h7: "PgpSecret att_ready \<noteq> []"
    by (simp add: ex_defs)
  have h8: "fault env_ok Get_l169 = None"
    by (simp add: ex_defs)
  have h9: "secrets ?r (Namespace req_a, PgpSecret att_ready) = Some [''keys'' \<mapsto> ''garbage'']"
    by (simp add: ex_defs)
  have h10: "ReadSigner env_ok
               (case [''keys'' \<mapsto> ''garbage''] ''keys'' of None \<Rightarrow> [] | Some b \<Rightarrow> b) =
             Inl (Failure ''parse'')"
    by (simp add: ex_defs)
  have h11: "Reconcile env_ok req_a ?r = (fst (Reconcile env_ok req_a ?r), snd (Reconcile env_ok req_a ?r))"
    by simp
  from unparsable_secret_pass [OF h1 h2 h3 h4 h5 h6 h7 h8 h9 h10 h11] show ?thesis
    by (simp add: ex_defs)
qed

subsection \<open>The events of the normal path\<close>

text \<open>
  Whatever the collaborators answer, the normal path only appends to the trace, deletes no
  secret, and sends in every resource update the finalizers of the object it was given.
\<close>

lemma secret_events:
  "\<exists>es. trace (snd (Reconcile_secret env req att p r)) = trace r @ es \<and>
        list_all (keeps_finalizers (Finalizers att)) es"
  by (simp add: Reconcile_secret_def updateStatus_def set_Status_def prim_defs case_prod_beta
        split: sum.split option.split)

lemma compile_events:
  "\<exists>es. trace (snd (Reconcile_compile env req att r)) = trace r @ es \<and>
        list_all (keeps_finalizers (Finalizers att)) es"
proof (cases "NewPolicy env (Name req) (Policy att) False")
  case (Inl e)
  then show ?thesis
    by (simp add: Reconcile_compile_def updateStatus_def set_Status_def prim_defs
          case_prod_beta split: sum.split option.split)
next
  case (Inr p)
  show ?thesis
  proof (cases "Conditions att")
    case Nil
    with Inr show ?thesis
      by (simp add: Reconcile_compile_def prim_defs)
  next
    case (Cons c cs)
    show ?thesis
    proof (cases "Status c = ConditionStatusTrue")
      case False
      with Inr Cons show ?thesis
        by (simp add: Reconcile_compile_def updateStatus_def set_Status_def prim_defs
              case_prod_beta split: sum.split option.split)
    next
      case True
      let ?r1 = "emit (Call (CallNewPolicy (Name req) (Policy att)) None) r"
      from secret_events [of env req att p ?r1]
      obtain es where
        "trace (snd (Reconcile_secret env req att p ?r1)) =
           trace r @ Call (CallNewPolicy (Name req) (Policy att)) None # es"
        and "list_all (keeps_finalizers (Finalizers att)) es"
        by (auto simp add: emit_def)
      with Inr Cons True show ?thesis
        by (simp add: Reconcile_compile_def attester_NewPolicy_def)
    qed
  qed
qed

lemma init_events:
  "\<exists>es. trace (snd (Reconcile_init env req att r)) = trace r @ es \<and>
        list_all (keeps_finalizers (Finalizers att)) es"
proof (cases "length (Conditions att) = 0")
  case False
  then show ?thesis
    using compile_events [of env req att r] by (simp add: Reconcile_init_def)
next
  case True
  let ?att = "att\<lparr>Conditions := (Conditions att @
                 [\<lparr>Type = ConditionCompiled, Status = ConditionStatusFalse\<rparr>]) @
                 [\<lparr>Type = ConditionSecret, Status = ConditionStatusFalse\<rparr>]\<rparr>"
  obtain err r1 where c:
    "client_Status_Update (fault env StatusUpdate_l121) (NamespacedName req) ?att r = (err, r1)"
    by (cases "client_Status_Update (fault env StatusUpdate_l121) (NamespacedName req) ?att r")
      auto
  then have t: "trace r1 = trace r @ [Call (StatusUpdate ?att) err]"
    by (auto simp add: prim_defs split: option.splits)
  show ?thesis
  proof (cases err)
    case (Some e)
    with True c t show ?thesis
      by (simp add: Reconcile_init_def emit_def)
  next
    case None
    from compile_events [of env req ?att r1] t
    obtain es where
      "trace (snd (Reconcile_compile env req ?att r1)) =
         trace r @ Call (StatusUpdate ?att) err # es"
      and "list_all (keeps_finalizers (Finalizers att)) es"
      by auto
    with None True c show ?thesis
      by (simp add: Reconcile_init_def)
  qed
qed

subsection \<open>A resource marked for deletion that does not carry the marker\<close>

text \<open>
  C10. A pass that fetches a resource marked for deletion without the guard marker is
  the normal path (initialisation of the conditions, compilation, and behind a Compiled
  condition that is True the secret and the registry) run on the resource as it was
  fetched: the marker is not added, no resource update of the pass sends other
  finalizers than the fetched ones, and no secret is deleted.
\<close>

theorem deleted_without_marker_takes_normal_path:
  assumes "store r (NamespacedName req) = Some a" and "fault env Get_l65 = None"
      and "\<not> IsZero (DeletionTimestamp a)"
      and "\<not> containsFinalizer (Finalizers a) attesterFinalizerName"
  shows "Reconcile env req r =
           Reconcile_init env req a (emit (Call (GetAttester (NamespacedName req)) None) r) \<and>
         list_all (keeps_finalizers (Finalizers a)) (new_events r (snd (Reconcile env req r)))"
proof -
  let ?r1 = "emit (Call (GetAttester (NamespacedName req)) None) r"
  from assms have eq: "Reconcile env req r = Reconcile_init env req a ?r1"
    by (simp add: Reconcile_def registerFinalizer_def client_Get_def)
  from init_events [of env req a ?r1] obtain es where
    "trace (snd (Reconcile_init env req a ?r1)) =
       trace r @ Call (GetAttester (NamespacedName req)) None # es"
    and "list_all (keeps_finalizers (Finalizers a)) es"
    by (auto simp add: emit_def)
  with eq show ?thesis
    by (simp add: new_events_def)
qed

theorem deleted_without_marker_takes_normal_path_witness:
  "fst (Reconcile env_ok req_a (state_of (att_deleting\<lparr>Finalizers := []\<rparr>) (secret_a ''signer''))) =
     Return None \<and>
   Attesters (snd (Reconcile env_ok req_a
       (state_of (att_deleting\<lparr>Finalizers := []\<rparr>) (secret_a ''signer'')))) ''ns/a'' =
     Some (NewAttester ''ns/a'' ''ok'' ''signer'') \<and>
   list_all (keeps_finalizers [])
     (new_events (state_of (att_deleting\<lparr>Finalizers := []\<rparr>) (secret_a ''signer''))
        (snd (Reconcile env_ok req_a
           (state_of (att_deleting\<lparr>Finalizers := []\<rparr>) (secret_a ''signer'')))))"
proof -
  let ?a = "att_deleting\<lparr>Finalizers := []\<rparr>"
  let ?r = "state_of ?a (secret_a ''signer'')"
  have h1: "store ?r (NamespacedName req_a) = Some ?a"
    by (simp add: ex_defs)
  have h2: "fault env_ok Get_l65 = None"
    by (simp add: ex_defs)
  have h3: "\<not> IsZero (DeletionTimestamp ?a)"
    by (simp add: ex_defs)
  have h4: "\<not> containsFinalizer (Finalizers ?a) attesterFinalizerName"
    by (simp add: ex_defs)
  have out: "fst (Reconcile env_ok req_a ?r) = Return None"
    by (simp add: pass_defs prim_defs ex_defs)
  have reg: "Attesters (snd (Reconcile env_ok req_a ?r)) ''ns/a'' =
               Some (NewAttester ''ns/a'' ''ok'' ''signer'')"
    by (simp add: pass_defs prim_defs ex_defs)
  from conjunct2 [OF deleted_without_marker_takes_normal_path [OF h1 h2 h3 h4]]
  have "list_all (keeps_finalizers (Finalizers ?a))
          (new_events ?r (snd (Reconcile env_ok req_a ?r)))" .
  with out reg show ?thesis
    by simp
qed

subsection \<open>The guard marker and the creation of the secret\<close>

text \<open>
  C6, as the code has it. Take a pass on a resource that is not marked for deletion,
  in which the update that persists the marker does not fail. If the stored resource
  did not carry the marker, the successful update that adds it is among the events that
  come before any creation of a secret. In either case no resource update of the pass
  sends finalizers without the marker, and the pass deletes no secret.
\<close>

theorem marker_persist_precedes_secret_creation:
  assumes "store r (NamespacedName req) = Some a" and "fault env Get_l65 = None"
      and "IsZero (DeletionTimestamp a)"
      and "fault env Update_l232 = None"
      and "Reconcile env req r = (out, r')"
  shows "(containsFinalizer (Finalizers a) attesterFinalizerName \<or>
          list_ex persists_marker (takeWhile (\<lambda>e. \<not> is_NewSecret e) (new_events r r'))) \<and>
         list_all
           (keeps_finalizers
              (if containsFinalizer (Finalizers a) attesterFinalizerName then Finalizers a
               else Finalizers a @ [attesterFinalizerName]))
           (new_events r r')"
proof (cases "containsFinalizer (Finalizers a) attesterFinalizerName")
  case True
  let ?r1 = "emit (Call (GetAttester (NamespacedName req)) None) r"
  from assms True have eq: "Reconcile env req r = Reconcile_init env req a ?r1"
    by (simp add: Reconcile_def registerFinalizer_def client_Get_def)
  from init_events [of env req a ?r1] obtain es where
    "trace (snd (Reconcile_init env req a ?r1)) =
       trace r @ Call (GetAttester (NamespacedName req)) None # es"
    and "list_all (keeps_finalizers (Finalizers a)) es"
    by (auto simp add: emit_def)
  moreover from assms(5) have "r' = snd (Reconcile env req r)"
    by simp
  ultimately show ?thesis
    using eq True by (simp add: new_events_def)
next
  case False
  let ?a = "a\<lparr>Finalizers := Finalizers a @ [attesterFinalizerName]\<rparr>"
  let ?r2 = "r\<lparr>store := (store r)(NamespacedName req \<mapsto> ?a),
                trace := trace r @ [Call (GetAttester (NamespacedName req)) None,
                                    Call (Update ?a) None]\<rparr>"
  from assms False have eq: "Reconcile env req r = Reconcile_init env req ?a ?r2"
    by (simp add: Reconcile_def registerFinalizer_def client_Get_def client_Update_def
          emit_def)
  from init_events [of env req ?a ?r2] obtain es where
    "trace (snd (Reconcile_init env req ?a ?r2)) =
       trace r @ Call (GetAttester (NamespacedName req)) None # Call (Update ?a) None # es"
    and "list_all (keeps_finalizers (Finalizers a @ [attesterFinalizerName])) es"
    by auto
  moreover from assms(5) have "r' = snd (Reconcile env req r)"
    by simp
  ultimately show ?thesis
    using eq False by (simp add: new_events_def containsFinalizer_def)
qed

theorem marker_persist_precedes_secret_creation_witness:
  "list_ex persists_marker
     (takeWhile (\<lambda>e. \<not> is_NewSecret e)
        (new_events (state_of att_unmarked Map.empty)
           (snd (Reconcile env_ok req_a (state_of att_unmarked Map.empty))))) \<and>
   Call (CallNewSecret (''ns'', ''a'')) None \<in>
     set (new_events (state_of att_unmarked Map.empty)
           (snd (Reconcile env_ok req_a (state_of att_unmarked Map.empty))))"
proof -
  let ?r = "state_of att_unmarked Map.empty"
  have h1: "store ?r (NamespacedName req_a) = Some att_unmarked"
    by (simp add: ex_defs)
  have h2: "fault env_ok Get_l65 = None"
    by (simp add: ex_defs)
  have h3: "IsZero (DeletionTimestamp att_unmarked)"
    by (simp add: ex_defs)
  have h4: "fault env_ok Update_l232 = None"
    by (simp add: ex_defs)
  have h5: "Reconcile env_ok req_a ?r = (fst (Reconcile env_ok req_a ?r), snd (Reconcile env_ok req_a ?r))"
    by simp
  have n: "\<not> containsFinalizer (Finalizers att_unmarked) attesterFinalizerName"
    by (simp add: ex_defs)
  have c: "Call (CallNewSecret (''ns'', ''a'')) None \<in>
     set (new_events ?r (snd (Reconcile env_ok req_a ?r)))"
    by (simp add: pass_defs prim_defs ex_defs)
  from marker_persist_precedes_secret_creation [OF h1 h2 h3 h4 h5] n c show ?thesis
    by simp
qed

text \<open>
  C6, as it is stated, fails. The resource is not marked for deletion and its stored
  copy does not carry the marker; the update that should persist the marker fails; the
  pass logs the error, goes on and creates the secret. After the pass the secret is
  stored and the stored resource still has no marker.
\<close>

theorem secret_created_without_persisted_marker:
  "IsZero (DeletionTimestamp att_unmarked) \<and>
   map_option Finalizers (store (state_of att_unmarked Map.empty) (''ns'', ''a'')) = Some [] \<and>
   secrets (state_of att_unmarked Map.empty) (''ns'', ''a'') = None \<and>
   new_events (state_of att_unmarked Map.empty)
     (snd (Reconcile (env_fault Update_l232 (Failure ''conflict'')) req_a
        (state_of att_unmarked Map.empty))) =
     [Call (GetAttester (''ns'', ''a'')) None,
      Call (Update (att_unmarked\<lparr>Finalizers := [attesterFinalizerName]\<rparr>))
        (Some (Failure ''conflict'')),
      LogError (Failure ''conflict'') ''Error registering finalizer'',
      Call (CallNewPolicy ''a'' ''ok'') None,
      Call (GetSecret (''ns'', ''a'')) (Some NotFound),
      Call (CallNewSecret (''ns'', ''a'')) None,
      Call (StatusUpdate (att_unmarked\<lparr>Finalizers := [attesterFinalizerName],
         Conditions := [Compiled_is ConditionStatusTrue, Secret_is ConditionStatusTrue]\<rparr>)) None] \<and>
   secrets (snd (Reconcile (env_fault Update_l232 (Failure ''conflict'')) req_a
        (state_of att_unmarked Map.empty))) (''ns'', ''a'') = Some [''keys'' \<mapsto> ''signer''] \<and>
   map_option Finalizers
     (store (snd (Reconcile (env_fault Update_l232 (Failure ''conflict'')) req_a
        (state_of att_unmarked Map.empty))) (''ns'', ''a'')) = Some []"
  by (simp add: pass_defs prim_defs ex_defs)

end
